theory Spec2Isabelle
  imports Main "HOL-Library.AList"
begin

section \<open>Python strings\<close>

text \<open>
  A Python \<open>str\<close> is a sequence of Unicode code points and \<open>len\<close> counts code
  points, so a string is a list of natural numbers. \<open>py\<close> turns an ASCII literal
  into such a list.
\<close>

type_synonym pystr = "nat list"

definition py :: "string \<Rightarrow> pystr" where
  "py s = map of_char s"

definition NL :: nat where
  "NL = 10"

text \<open>
  The code points that \<open>str.strip()\<close> removes when called without argument: those for
  which \<open>str.isspace\<close> holds.
\<close>

definition is_space :: "nat \<Rightarrow> bool" where
  "is_space c \<longleftrightarrow>
     (9 \<le> c \<and> c \<le> 13) \<or> (28 \<le> c \<and> c \<le> 32) \<or> c = 133 \<or> c = 160 \<or> c = 5760 \<or>
     (8192 \<le> c \<and> c \<le> 8202) \<or> c = 8232 \<or> c = 8233 \<or> c = 8239 \<or> c = 8287 \<or> c = 12288"

definition lstrip :: "pystr \<Rightarrow> pystr" where
  "lstrip s = dropWhile is_space s"

definition rstrip :: "pystr \<Rightarrow> pystr" where
  "rstrip s = rev (dropWhile is_space (rev s))"

definition strip :: "pystr \<Rightarrow> pystr" where
  "strip s = rstrip (lstrip s)"

text \<open>\<open>s.split('\n')\<close>: the pieces between newlines; \<open>cur\<close> is the piece being read.\<close>

fun split_from :: "pystr \<Rightarrow> pystr \<Rightarrow> pystr list" where
  "split_from cur [] = [cur]"
| "split_from cur (c # cs) =
     (if c = NL then cur # split_from [] cs else split_from (cur @ [c]) cs)"

definition split_nl :: "pystr \<Rightarrow> pystr list" where
  "split_nl s = split_from [] s"

text \<open>\<open>sep.join(ls)\<close>, and the case \<open>'\n'.join(ls)\<close>.\<close>

fun str_join :: "pystr \<Rightarrow> pystr list \<Rightarrow> pystr" where
  "str_join sep [] = []"
| "str_join sep [l] = l"
| "str_join sep (l # ls) = l @ sep @ str_join sep ls"

definition join_nl :: "pystr list \<Rightarrow> pystr" where
  "join_nl ls = str_join [NL] ls"

section \<open>Data model\<close>

text \<open>Values of the loosely typed metadata dictionaries (\<open>Dict[str, Any]\<close>).\<close>

datatype py_value = Str pystr | Num int | Nested "(pystr \<times> py_value) list"

text \<open>
  A dictionary keeps insertion order, so it is an association list. Assigning to a key
  replaces the value in place or appends the key (\<open>AList.update\<close>); \<open>d.update(e)\<close>
  assigns the items of \<open>e\<close> from first to last.
\<close>

type_synonym pydict = "(pystr \<times> py_value) list"

definition dict_update :: "pydict \<Rightarrow> pydict \<Rightarrow> pydict" where
  "dict_update d e = fold (\<lambda>(k, v). AList.update k v) e d"

record chunk =
  chunk_id :: nat
  content :: pystr
  chunk_metadata :: pydict

section \<open>The line chunker of the plain-text path\<close>

text \<open>The dictionary appended to \<open>chunks\<close> when the buffer \<open>current_chunk\<close> is flushed.\<close>

definition chunk_record :: "pystr \<Rightarrow> nat \<Rightarrow> pystr \<Rightarrow> chunk" where
  "chunk_record file_path i current_chunk =
     \<lparr>chunk_id = i, content = strip current_chunk,
      chunk_metadata = [(py ''chunk_index'', Num (int i)), (py ''source'', Str file_path)]\<rparr>"

text \<open>
  One iteration of \<open>for line in lines\<close>, on the loop's variables
  \<open>(chunks, current_chunk, chunk_id)\<close>.
\<close>

fun chunk_line :: "pystr \<Rightarrow> chunk list \<times> pystr \<times> nat \<Rightarrow> pystr \<Rightarrow> chunk list \<times> pystr \<times> nat" where
  "chunk_line file_path (chunks, current_chunk, cid) line =
     (if length current_chunk + length line > 500 then
        (if strip current_chunk \<noteq> [] then
           (chunks @ [chunk_record file_path cid current_chunk], line @ [NL], cid + 1)
         else (chunks, line @ [NL], cid))
      else (chunks, current_chunk @ line @ [NL], cid))"

definition chunk_loop :: "pystr \<Rightarrow> pystr list \<Rightarrow> chunk list \<times> pystr \<times> nat" where
  "chunk_loop file_path lines = foldl (chunk_line file_path) ([], [], 0) lines"

text \<open>The loop followed by the flush of the final buffer.\<close>

definition final_flush :: "pystr \<Rightarrow> chunk list \<times> pystr \<times> nat \<Rightarrow> chunk list" where
  "final_flush file_path st =
     (case st of (chunks, current_chunk, cid) \<Rightarrow>
        if strip current_chunk \<noteq> [] then chunks @ [chunk_record file_path cid current_chunk]
        else chunks)"

definition txt_chunks :: "pystr \<Rightarrow> pystr \<Rightarrow> chunk list" where
  "txt_chunks file_path content_text =
     final_flush file_path (chunk_loop file_path (split_nl content_text))"

section \<open>The response model and the environment\<close>

record DocumentProcessingResult =
  success :: bool
  markdown_content :: pystr
  metadata :: pydict
  chunks :: "chunk list option"
  error :: "pystr option"

text \<open>
  An exception caught by \<open>except Exception\<close>: the \<open>ValueError\<close>s the processor raises
  itself, and any \<open>Exception\<close> raised inside a library call, with its \<open>str(e)\<close>.
\<close>

datatype py_exception = ValueError pystr | LibraryError pystr

fun exc_str :: "py_exception \<Rightarrow> pystr" where
  "exc_str (ValueError msg) = msg"
| "exc_str (LibraryError msg) = msg"

datatype ExportType = MARKDOWN | DOC_CHUNKS

text \<open>A unit returned by \<open>DoclingLoader.load\<close>.\<close>

record document =
  page_content :: pystr
  doc_metadata :: pydict

text \<open>An uploaded file: its name, and what \<open>await file.read()\<close> gives.\<close>

record UploadFile =
  filename :: "pystr option"
  file_read :: "py_exception + pystr"

text \<open>
  The library calls whose answers the service does not determine:
  \<open>os.path.exists\<close>, \<open>Path(p).suffix\<close>, \<open>str.lower\<close>, \<open>open(p).read()\<close>,
  \<open>os.path.getsize\<close>, \<open>DoclingLoader(p, mode).load()\<close>, the name chosen by
  \<open>tempfile.NamedTemporaryFile\<close> among the files present, \<open>temp_file.write\<close> with
  \<open>flush\<close>, and whether the operating system refuses \<open>os.unlink\<close>.
\<close>

record world =
  path_exists :: "pystr \<Rightarrow> bool"
  path_suffix :: "pystr \<Rightarrow> pystr"
  str_lower :: "pystr \<Rightarrow> pystr"
  read_text :: "pystr \<Rightarrow> py_exception + pystr"
  getsize :: "pystr \<Rightarrow> py_exception + nat"
  loader_load :: "pystr \<Rightarrow> ExportType \<Rightarrow> py_exception + document list"
  named_temporary_file :: "pystr set \<Rightarrow> pystr \<Rightarrow> py_exception + pystr"
  temp_write :: "pystr \<Rightarrow> pystr \<Rightarrow> py_exception option"
  unlink_refused :: "pystr \<Rightarrow> py_exception option"

section \<open>\<open>DoclingProcessor.process_document\<close>\<close>

text \<open>The branch for \<open>.txt\<close> files; \<open>Inl\<close> is an exception leaving the \<open>try\<close> body.\<close>

definition process_txt :: "world \<Rightarrow> pystr \<Rightarrow> pystr \<Rightarrow> py_exception + DocumentProcessingResult" where
  "process_txt w file_path export_type =
     (case read_text w file_path of
        Inl e \<Rightarrow> Inl e
      | Inr txt \<Rightarrow>
          (case getsize w file_path of
             Inl e \<Rightarrow> Inl e
           | Inr file_size \<Rightarrow>
               (let meta = [(py ''processing_method'', Str (py ''langchain_docling_txt'')),
                            (py ''export_type'', Str export_type),
                            (py ''file_type'', Str (py ''txt'')),
                            (py ''total_length'', Num (int (length txt))),
                            (py ''file_size'', Num (int file_size))]
                in if str_lower w export_type = py ''chunks'' then
                     (let cs = txt_chunks file_path txt
                      in Inr \<lparr>success = True, markdown_content = txt,
                              metadata = AList.update (py ''total_chunks'') (Num (int (length cs))) meta,
                              chunks = Some cs, error = None\<rparr>)
                   else
                     Inr \<lparr>success = True, markdown_content = txt, metadata = meta,
                          chunks = None, error = None\<rparr>)))"

text \<open>The branch for every other file, through the loader.\<close>

definition loader_chunks :: "document list \<Rightarrow> chunk list" where
  "loader_chunks docs =
     map (\<lambda>(i, doc). \<lparr>chunk_id = i, content = page_content doc, chunk_metadata = doc_metadata doc\<rparr>)
       (enumerate 0 docs)"

definition process_loader :: "world \<Rightarrow> pystr \<Rightarrow> pystr \<Rightarrow> py_exception + DocumentProcessingResult" where
  "process_loader w file_path export_type =
     (let export_mode = (if str_lower w export_type = py ''chunks'' then DOC_CHUNKS else MARKDOWN)
      in case loader_load w file_path export_mode of
           Inl e \<Rightarrow> Inl e
         | Inr docs \<Rightarrow>
             if docs = [] then Inl (ValueError (py ''No documents were processed''))
             else if export_mode = MARKDOWN then
               (let markdown = str_join [NL, NL] (map page_content docs);
                    meta = (case docs of [] \<Rightarrow> [] | d # _ \<Rightarrow> doc_metadata d)
                in Inr \<lparr>success = True, markdown_content = markdown,
                        metadata = dict_update meta
                          [(py ''processing_method'', Str (py ''langchain_docling'')),
                           (py ''export_type'', Str (py ''markdown'')),
                           (py ''total_documents'', Num (int (length docs))),
                           (py ''total_length'', Num (int (length markdown)))],
                        chunks = None, error = None\<rparr>)
             else
               (let cs = loader_chunks docs;
                    total_content = concat (map (\<lambda>doc. page_content doc @ [NL, NL]) docs);
                    combined_metadata =
                      [(py ''processing_method'', Str (py ''langchain_docling'')),
                       (py ''export_type'', Str (py ''chunks'')),
                       (py ''total_chunks'', Num (int (length cs))),
                       (py ''total_length'', Num (int (length total_content)))]
                in Inr \<lparr>success = True, markdown_content = strip total_content,
                        metadata = (case cs of
                                      [] \<Rightarrow> combined_metadata
                                    | c # _ \<Rightarrow> if chunk_metadata c \<noteq> []
                                               then dict_update combined_metadata (chunk_metadata c)
                                               else combined_metadata),
                        chunks = Some cs, error = None\<rparr>))"

text \<open>The body of the \<open>try\<close>.\<close>

definition process_body :: "world \<Rightarrow> pystr \<Rightarrow> pystr \<Rightarrow> py_exception + DocumentProcessingResult" where
  "process_body w file_path export_type =
     (if \<not> path_exists w file_path then Inl (ValueError (py ''File not found: '' @ file_path))
      else if str_lower w (path_suffix w file_path) = py ''.txt'' then process_txt w file_path export_type
      else process_loader w file_path export_type)"

text \<open>The result built by the \<open>except Exception\<close> handler.\<close>

definition error_result :: "py_exception \<Rightarrow> DocumentProcessingResult" where
  "error_result e =
     \<lparr>success = False, markdown_content = [], metadata = [], chunks = None, error = Some (exc_str e)\<rparr>"

definition process_document :: "world \<Rightarrow> pystr \<Rightarrow> pystr \<Rightarrow> DocumentProcessingResult" where
  "process_document w file_path export_type =
     (case process_body w file_path export_type of Inl e \<Rightarrow> error_result e | Inr r \<Rightarrow> r)"

section \<open>The upload endpoint\<close>

text \<open>
  How a call of the handler ends: it returns a value, raises an \<open>HTTPException\<close> with a
  status code and a detail, or lets another exception reach the framework.
\<close>

datatype 'a outcome = Returned 'a | HTTPException nat pystr | Unhandled py_exception

definition supported_formats :: "pystr list" where
  "supported_formats = [py ''.pdf'', py ''.docx'', py ''.doc'', py ''.pptx'', py ''.html'', py ''.txt'']"

text \<open>\<open>repr\<close> of a list of strings free of quotes and escapes, as the f-string prints it.\<close>

definition repr_list :: "pystr list \<Rightarrow> pystr" where
  "repr_list xs = py ''['' @ str_join (py '', '') (map (\<lambda>x. [39] @ x @ [39]) xs) @ py '']''"

text \<open>
  \<open>os.unlink\<close> on the set of files present: it raises when the operating system refuses
  or the file is absent, and removes the file otherwise.
\<close>

definition os_unlink :: "world \<Rightarrow> pystr \<Rightarrow> pystr set \<Rightarrow> py_exception + pystr set" where
  "os_unlink w p files =
     (case unlink_refused w p of
        Some e \<Rightarrow> Inl e
      | None \<Rightarrow> if p \<in> files then Inr (files - {p}) else Inl (LibraryError (py ''No such file or directory'')))"

text \<open>The \<open>finally\<close> block: \<open>try: os.unlink(temp_file.name)\<close>, \<open>except: pass\<close>.\<close>

definition cleanup :: "world \<Rightarrow> pystr \<Rightarrow> pystr set \<Rightarrow> pystr set" where
  "cleanup w p files = (case os_unlink w p files of Inl e \<Rightarrow> files | Inr files' \<Rightarrow> files')"

text \<open>The handler, on the set of files present; it returns the outcome and the files left.\<close>

definition process_document_endpoint ::
  "world \<Rightarrow> pystr set \<Rightarrow> UploadFile \<Rightarrow> pystr \<Rightarrow> DocumentProcessingResult outcome \<times> pystr set" where
  "process_document_endpoint w files file export_type =
     (case filename file of
        None \<Rightarrow> (HTTPException 400 (py ''No file provided''), files)
      | Some name \<Rightarrow>
          if name = [] then (HTTPException 400 (py ''No file provided''), files)
          else
            (let file_extension = str_lower w (path_suffix w name)
             in if file_extension \<notin> set supported_formats then
                  (HTTPException 400
                     (py ''Unsupported file format: '' @ file_extension @
                      py ''. Supported formats: '' @ repr_list supported_formats), files)
                else
                  (case named_temporary_file w files file_extension of
                     Inl e \<Rightarrow> (Unhandled e, files)
                   | Inr temp_name \<Rightarrow>
                       (let body =
                              (case file_read file of
                                 Inl e \<Rightarrow> HTTPException 500 (py ''Error processing document: '' @ exc_str e)
                               | Inr data \<Rightarrow>
                                   (case temp_write w temp_name data of
                                      Some e \<Rightarrow>
                                        HTTPException 500 (py ''Error processing document: '' @ exc_str e)
                                    | None \<Rightarrow> Returned (process_document w temp_name export_type)))
                        in (body, cleanup w temp_name (insert temp_name files))))))"

section \<open>The chunker as a grouping of lines\<close>

text \<open>
  The lines are grouped greedily: \<open>buf\<close> holds the lines accumulated so far, and the
  group is closed exactly when the buffer with the next line added, lines separated by
  newlines, would exceed 500 characters. No line is split.
\<close>

fun greedy_groups :: "pystr list \<Rightarrow> pystr list \<Rightarrow> pystr list list" where
  "greedy_groups buf [] = [buf]"
| "greedy_groups buf (l # ls) =
     (if length (join_nl (buf @ [l])) > 500 then buf # greedy_groups [l] ls
      else greedy_groups (buf @ [l]) ls)"

text \<open>Chunk records for a list of contents, with ids counting from \<open>n\<close>.\<close>

definition number_chunks :: "pystr \<Rightarrow> nat \<Rightarrow> pystr list \<Rightarrow> chunk list" where
  "number_chunks file_path n texts =
     map (\<lambda>(i, t). \<lparr>chunk_id = i, content = t,
                      chunk_metadata = [(py ''chunk_index'', Num (int i)), (py ''source'', Str file_path)]\<rparr>)
       (enumerate n texts)"

text \<open>
  The reference algorithm in the words of the specification: every non-empty buffer is
  flushed as a chunk, whose content is the accumulated lines.
\<close>

definition spec_chunks :: "pystr \<Rightarrow> pystr list \<Rightarrow> chunk list" where
  "spec_chunks file_path lines =
     number_chunks file_path 0 (filter (\<lambda>t. t \<noteq> []) (map join_nl (greedy_groups [] lines)))"

text \<open>
  The same algorithm with the whitespace handling of the code: the content of a chunk
  is the stripped buffer, and a buffer of whitespace only gives no chunk and takes no id.
\<close>

definition stripped_chunks :: "pystr \<Rightarrow> pystr list \<Rightarrow> chunk list" where
  "stripped_chunks file_path lines =
     number_chunks file_path 0
       (filter (\<lambda>t. t \<noteq> []) (map (\<lambda>g. strip (join_nl g)) (greedy_groups [] lines)))"

text \<open>The text the loop holds in \<open>current_chunk\<close> for the lines \<open>buf\<close>: each line with its newline.\<close>

definition terminated :: "pystr list \<Rightarrow> pystr" where
  "terminated buf = concat (map (\<lambda>l. l @ [NL]) buf)"

text \<open>A line that is not empty and neither begins nor ends with whitespace.\<close>

definition clean_line :: "pystr \<Rightarrow> bool" where
  "clean_line l \<longleftrightarrow> l \<noteq> [] \<and> \<not> is_space (hd l) \<and> \<not> is_space (last l)"

section \<open>Example environments\<close>

text \<open>\<open>str.lower\<close> on ASCII letters.\<close>

definition ascii_lower :: "pystr \<Rightarrow> pystr" where
  "ascii_lower s = map (\<lambda>c. if 65 \<le> c \<and> c \<le> 90 then c + 32 else c) s"

text \<open>
  A world with one file of the given path, suffix and contents, in which no library
  call fails and the loader returns the given units.
\<close>

definition one_file_world :: "pystr \<Rightarrow> pystr \<Rightarrow> pystr \<Rightarrow> document list \<Rightarrow> world" where
  "one_file_world p sfx txt docs =
     \<lparr>path_exists = (\<lambda>q. q = p),
      path_suffix = (\<lambda>q. sfx),
      str_lower = ascii_lower,
      read_text = (\<lambda>q. if q = p then Inr txt else Inl (LibraryError (py ''No such file or directory''))),
      getsize = (\<lambda>q. if q = p then Inr (length txt) else Inl (LibraryError (py ''No such file or directory''))),
      loader_load = (\<lambda>q m. Inr docs),
      named_temporary_file = (\<lambda>files sfx'. Inr p),
      temp_write = (\<lambda>q d. None),
      unlink_refused = (\<lambda>q. None)\<rparr>"

text \<open>
  The same world with an operating system that refuses to unlink, as happens where a
  file that is still open cannot be removed.
\<close>

definition refusing_world :: world where
  "refusing_world =
     (one_file_world (py ''tmp1.txt'') (py ''.txt'') (py ''hello'') [])
       \<lparr>unlink_refused := (\<lambda>q. Some (LibraryError (py ''Permission denied'')))\<rparr>"

section \<open>Facts about strings\<close>

lemma is_space_NL: "is_space NL"
  by (simp add: is_space_def NL_def)

lemma strip_Nil: "strip [] = []"
  by (simp add: strip_def lstrip_def rstrip_def)

lemma strip_snoc_space: "is_space c \<Longrightarrow> strip (s @ [c]) = strip s"
proof (cases "\<forall>x\<in>set s. is_space x")
  case True
  assume c: "is_space c"
  from True have a: "dropWhile is_space s = []"
    by (simp only: dropWhile_eq_Nil_conv)
  from True c have "\<forall>x\<in>set (s @ [c]). is_space x" by simp
  then have b: "dropWhile is_space (s @ [c]) = []"
    by (simp only: dropWhile_eq_Nil_conv)
  show ?thesis unfolding strip_def lstrip_def rstrip_def a b ..
next
  case False
  assume "is_space c"
  with False show ?thesis by (auto simp: strip_def lstrip_def rstrip_def dropWhile_append)
qed

lemma strip_cons_space: "is_space c \<Longrightarrow> strip (c # s) = strip s"
  by (simp add: strip_def lstrip_def rstrip_def)

lemma length_strip: "length (strip s) \<le> length s"
proof -
  have "length (strip s) \<le> length (lstrip s)"
    unfolding strip_def rstrip_def using length_dropWhile_le[of is_space "rev (lstrip s)"] by simp
  also have "\<dots> \<le> length s"
    unfolding lstrip_def by (rule length_dropWhile_le)
  finally show ?thesis .
qed

lemma strip_clean: "clean_line s \<Longrightarrow> strip s = s"
proof -
  assume c: "clean_line s"
  then have l: "lstrip s = s"
    by (cases s) (simp_all add: clean_line_def lstrip_def)
  from c have "dropWhile is_space (rev s) = rev s"
    by (cases "rev s") (simp_all add: clean_line_def hd_rev)
  then show ?thesis by (simp add: strip_def rstrip_def l)
qed

lemma strip_ends: "strip s \<noteq> [] \<Longrightarrow> \<not> is_space (hd (strip s)) \<and> \<not> is_space (last (strip s))"
proof -
  assume ne: "strip s \<noteq> []"
  let ?t = "lstrip s"
  let ?u = "dropWhile is_space (rev ?t)"
  have u: "?u \<noteq> []" using ne by (simp add: strip_def rstrip_def)
  have last: "\<not> is_space (last (strip s))"
    using u hd_dropWhile[of is_space "rev ?t"] by (simp add: strip_def rstrip_def last_rev)
  have t: "?t \<noteq> []" using u by auto
  have hdt: "\<not> is_space (hd ?t)"
    using t hd_dropWhile[of is_space s] by (simp add: lstrip_def)
  have "\<exists>ys. ?t = rev ?u @ ys"
    by (metis rev_append rev_rev_ident takeWhile_dropWhile_id)
  then obtain ys where "?t = rev ?u @ ys" ..
  then have "hd ?t = hd (rev ?u)" using u by (metis hd_append2 rev_is_Nil_conv)
  then show ?thesis using last hdt by (simp add: strip_def rstrip_def)
qed




section \<open>The loop computes the grouping\<close>

lemma join_nl_snoc: "join_nl (buf @ [l]) = terminated buf @ l"
  by (induction buf rule: str_join.induct[where ?a0.0 = "[NL]"]) (simp_all add: join_nl_def terminated_def)


lemma strip_terminated: "strip (terminated buf) = strip (join_nl buf)"
proof (cases buf rule: rev_cases)
  case Nil
  then show ?thesis by (simp add: terminated_def join_nl_def)
next
  case (snoc ys y)
  have "terminated buf = join_nl buf @ [NL]"
    unfolding snoc join_nl_snoc by (simp add: terminated_def)
  then show ?thesis by (simp add: strip_snoc_space is_space_NL)
qed

lemma number_chunks_Nil: "number_chunks fp n [] = []"
  by (simp add: number_chunks_def)

lemma number_chunks_Cons:
  "number_chunks fp n (t # ts) =
     \<lparr>chunk_id = n, content = t,
      chunk_metadata = [(py ''chunk_index'', Num (int n)), (py ''source'', Str fp)]\<rparr> # number_chunks fp (Suc n) ts"
  by (simp add: number_chunks_def)

lemma loop_is_grouping:
  "final_flush fp (foldl (chunk_line fp) (acc, terminated buf, n) ls) =
     acc @ number_chunks fp n
             (filter (\<lambda>t. t \<noteq> []) (map (\<lambda>g. strip (join_nl g)) (greedy_groups buf ls)))"
proof (induction ls arbitrary: acc buf n)
  case Nil
  show ?case
    by (simp add: final_flush_def strip_terminated number_chunks_Nil number_chunks_Cons chunk_record_def)
next
  case (Cons l ls)
  have len: "length (join_nl (buf @ [l])) = length (terminated buf) + length l"
    by (simp add: join_nl_snoc)
  have one: "terminated [l] = l @ [NL]" by (simp add: terminated_def)
  have app: "terminated (buf @ [l]) = terminated buf @ l @ [NL]" by (simp add: terminated_def)
  show ?case
  proof (cases "length (terminated buf) + length l > 500")
    case False
    then show ?thesis
      using Cons.IH[of acc "buf @ [l]" n] by (simp add: len app)
  next
    case True
    show ?thesis
    proof (cases "strip (terminated buf) = []")
      case e: True
      then show ?thesis
        using True Cons.IH[of acc "[l]" n] by (simp add: len one strip_terminated)
    next
      case ne: False
      then show ?thesis
        using True Cons.IH[of "acc @ [chunk_record fp n (terminated buf)]" "[l]" "Suc n"]
        by (simp add: len one strip_terminated number_chunks_Cons chunk_record_def)
    qed
  qed
qed

lemma txt_chunks_grouping: "txt_chunks fp txt = stripped_chunks fp (split_nl txt)"
  using loop_is_grouping[of fp "[]" "[]" 0 "split_nl txt"]
  by (simp add: txt_chunks_def chunk_loop_def stripped_chunks_def terminated_def)


lemma txt_chunks_contents:
  "map content (txt_chunks fp txt) =
     filter (\<lambda>t. t \<noteq> []) (map (\<lambda>g. strip (join_nl g)) (greedy_groups [] (split_nl txt)))"
  by (simp add: txt_chunks_grouping stripped_chunks_def number_chunks_def comp_def case_prod_beta
        enumerate_eq_zip)

lemma number_chunks_ids: "map chunk_id (number_chunks fp n ts) = [n..<n + length ts]"
  by (simp add: number_chunks_def comp_def case_prod_beta enumerate_eq_zip)

lemma txt_chunks_ids: "map chunk_id (txt_chunks fp txt) = [0..<length (txt_chunks fp txt)]"
  by (simp add: txt_chunks_grouping stripped_chunks_def number_chunks_ids)
     (simp add: number_chunks_def)

lemma loader_chunks_ids: "map chunk_id (loader_chunks docs) = [0..<length (loader_chunks docs)]"
  by (simp add: loader_chunks_def enumerate_eq_zip comp_def case_prod_beta)

lemma concat_greedy_groups: "concat (greedy_groups buf ls) = buf @ ls"
  by (induction ls arbitrary: buf) simp_all

lemma greedy_groups_bound:
  assumes "length (join_nl buf) \<le> 500 \<or> (\<exists>l\<in>L. buf = [l])" and "set ls \<subseteq> L"
  shows "\<forall>g\<in>set (greedy_groups buf ls). length (join_nl g) \<le> 500 \<or> (\<exists>l\<in>L. g = [l])"
  using assms
proof (induction ls arbitrary: buf)
  case Nil
  then show ?case by simp
next
  case (Cons l ls)
  have l: "l \<in> L" and ls: "set ls \<subseteq> L" using Cons.prems(2) by simp_all
  show ?case
  proof (cases "length (join_nl (buf @ [l])) > 500")
    case True
    have "\<forall>g\<in>set (greedy_groups [l] ls). length (join_nl g) \<le> 500 \<or> (\<exists>l\<in>L. g = [l])"
      using l ls by (intro Cons.IH) auto
    then show ?thesis using True Cons.prems(1) by simp
  next
    case False
    have "\<forall>g\<in>set (greedy_groups (buf @ [l]) ls). length (join_nl g) \<le> 500 \<or> (\<exists>l\<in>L. g = [l])"
      using False ls by (intro Cons.IH) auto
    then show ?thesis using False by simp
  qed
qed

lemma txt_chunks_bound:
  assumes "c \<in> set (txt_chunks fp txt)"
  shows "length (content c) \<le> 500 \<or> (\<exists>l\<in>set (split_nl txt). 500 < length l \<and> content c = strip l)"
proof -
  have "content c \<in> set (map content (txt_chunks fp txt))" using assms by simp
  then obtain g where g: "g \<in> set (greedy_groups [] (split_nl txt))" and c: "content c = strip (join_nl g)"
    unfolding txt_chunks_contents by auto
  have "length (join_nl g) \<le> 500 \<or> (\<exists>l\<in>set (split_nl txt). g = [l])"
    using greedy_groups_bound[of "[]" "set (split_nl txt)" "split_nl txt"] g
    by (simp add: join_nl_def)
  then show ?thesis
  proof
    assume "length (join_nl g) \<le> 500"
    then have "length (content c) \<le> 500" using length_strip[of "join_nl g"] c by simp
    then show ?thesis ..
  next
    assume "\<exists>l\<in>set (split_nl txt). g = [l]"
    then obtain l where l: "l \<in> set (split_nl txt)" and gl: "g = [l]" by auto
    have cl: "content c = strip l" using c gl by (simp add: join_nl_def)
    show ?thesis
    proof (cases "length (content c) \<le> 500")
      case True then show ?thesis ..
    next
      case False
      then have "500 < length l" using length_strip[of l] cl by simp
      then show ?thesis using l cl by auto
    qed
  qed
qed

lemma txt_chunks_stripped:
  assumes "c \<in> set (txt_chunks fp txt)"
  shows "content c \<noteq> [] \<and> \<not> is_space (hd (content c)) \<and> \<not> is_space (last (content c))"
proof -
  have "content c \<in> set (map content (txt_chunks fp txt))" using assms by simp
  then obtain g where "content c = strip (join_nl g)" and "strip (join_nl g) \<noteq> []"
    unfolding txt_chunks_contents by auto
  then show ?thesis using strip_ends[of "join_nl g"] by simp
qed

section \<open>Results of the processor\<close>




lemma process_body_raises_iff:
  "process_body w fp et = Inl e \<longleftrightarrow>
     (\<not> path_exists w fp \<and> e = ValueError (py ''File not found: '' @ fp)) \<or>
     (path_exists w fp \<and> str_lower w (path_suffix w fp) = py ''.txt'' \<and>
        (read_text w fp = Inl e \<or> (\<exists>txt. read_text w fp = Inr txt) \<and> getsize w fp = Inl e)) \<or>
     (path_exists w fp \<and> str_lower w (path_suffix w fp) \<noteq> py ''.txt'' \<and>
        (loader_load w fp (if str_lower w et = py ''chunks'' then DOC_CHUNKS else MARKDOWN) = Inl e \<or>
         loader_load w fp (if str_lower w et = py ''chunks'' then DOC_CHUNKS else MARKDOWN) = Inr [] \<and>
         e = ValueError (py ''No documents were processed'')))"
  by (auto simp: process_body_def process_txt_def process_loader_def Let_def split: sum.splits if_splits)

lemma one_file_world_simps:
  "path_exists (one_file_world p sfx txt docs) q = (q = p)"
  "path_suffix (one_file_world p sfx txt docs) q = sfx"
  "str_lower (one_file_world p sfx txt docs) = ascii_lower"
  "read_text (one_file_world p sfx txt docs) p = Inr txt"
  "getsize (one_file_world p sfx txt docs) p = Inr (length txt)"
  "loader_load (one_file_world p sfx txt docs) q m = Inr docs"
  by (simp_all add: one_file_world_def)

lemma ascii_lower_literals:
  "ascii_lower (py ''.txt'') = py ''.txt''"
  "ascii_lower (py ''.pdf'') \<noteq> py ''.txt''"
  "ascii_lower (py ''chunks'') = py ''chunks''"
  "ascii_lower (py ''markdown'') \<noteq> py ''chunks''"
  by (simp_all add: ascii_lower_def py_def)



text \<open>
  Claim C7. For a file that exists and is not a \<open>.txt\<close> file, when the loader returns
  no unit the processor returns a result with \<open>success = False\<close> and the non-empty
  error string \<open>No documents were processed\<close>.
\<close>

theorem no_documents_is_failure:
  assumes "path_exists w file_path"
    and "str_lower w (path_suffix w file_path) \<noteq> py ''.txt''"
    and "loader_load w file_path (if str_lower w export_type = py ''chunks'' then DOC_CHUNKS else MARKDOWN) = Inr []"
  shows "process_document w file_path export_type =
           \<lparr>success = False, markdown_content = [], metadata = [], chunks = None,
            error = Some (py ''No documents were processed'')\<rparr> \<and>
         py ''No documents were processed'' \<noteq> []"
  using assms
  by (simp add: process_document_def process_body_def process_loader_def error_result_def py_def)

text \<open>The theorem at a PDF file for which the loader returns nothing.\<close>

theorem no_documents_is_failure_witness:
  "path_exists (one_file_world (py ''a.pdf'') (py ''.pdf'') [] []) (py ''a.pdf'') \<and>
   process_document (one_file_world (py ''a.pdf'') (py ''.pdf'') [] []) (py ''a.pdf'') (py ''chunks'') =
     \<lparr>success = False, markdown_content = [], metadata = [], chunks = None,
      error = Some (py ''No documents were processed'')\<rparr>"
  using no_documents_is_failure [of "one_file_world (py ''a.pdf'') (py ''.pdf'') [] []" "py ''a.pdf''" "py ''chunks''"]
  by (simp add: one_file_world_simps ascii_lower_literals)





section \<open>Chunks of a plain-text file\<close>

lemma process_document_txt_chunks:
  assumes "path_exists w file_path"
    and "str_lower w (path_suffix w file_path) = py ''.txt''"
    and "read_text w file_path = Inr txt"
    and "getsize w file_path = Inr n"
    and "str_lower w export_type = py ''chunks''"
  shows "chunks (process_document w file_path export_type) = Some (txt_chunks file_path txt)"
  using assms by (simp add: process_document_def process_body_def process_txt_def Let_def)

lemma process_body_chunks:
  assumes "process_body w fp et = Inr r" and "chunks r = Some cs"
  shows "(\<exists>txt. cs = txt_chunks fp txt) \<or> (\<exists>docs. cs = loader_chunks docs)"
  using assms
  by (auto simp: process_body_def process_txt_def process_loader_def Let_def
           split: if_splits sum.splits)

lemma split_from_no_NL: "NL \<notin> set s \<Longrightarrow> split_from cur s = [cur @ s]"
  by (induction s arbitrary: cur) auto

lemma split_nl_no_NL: "NL \<notin> set s \<Longrightarrow> split_nl s = [s]"
  by (simp add: split_nl_def split_from_no_NL)

lemma txt_chunks_one_line:
  "NL \<notin> set s \<Longrightarrow> txt_chunks fp s = (if strip s = [] then [] else [chunk_record fp 0 s])"
  by (simp add: txt_chunks_def split_nl_no_NL chunk_loop_def final_flush_def strip_Nil
        strip_snoc_space is_space_NL chunk_record_def)

text \<open>
  Claim C5. Whenever the processor returns chunks, from the plain-text path or from the
  loader's chunk path, their \<open>chunk_id\<close>s in list order are \<open>0, 1, 2, \<dots>\<close> up to
  the number of chunks: no gap and no repeat.
\<close>

theorem chunk_ids_contiguous:
  assumes "chunks (process_document w file_path export_type) = Some cs"
  shows "map chunk_id cs = [0..<length cs]"
proof (cases "process_body w file_path export_type")
  case (Inl e)
  then show ?thesis using assms by (simp add: process_document_def error_result_def)
next
  case (Inr r)
  then have "chunks r = Some cs" using assms by (simp add: process_document_def)
  then show ?thesis
    using process_body_chunks[OF Inr] txt_chunks_ids loader_chunks_ids by auto
qed

text \<open>The theorem at a PDF file for which the loader returns two units.\<close>

theorem chunk_ids_contiguous_witness:
  "chunks (process_document (one_file_world (py ''a.pdf'') (py ''.pdf'') []
             [\<lparr>page_content = py ''one'', doc_metadata = []\<rparr>, \<lparr>page_content = py ''two'', doc_metadata = []\<rparr>])
             (py ''a.pdf'') (py ''chunks'')) =
     Some [\<lparr>chunk_id = 0, content = py ''one'', chunk_metadata = []\<rparr>,
           \<lparr>chunk_id = 1, content = py ''two'', chunk_metadata = []\<rparr>] \<and>
   map chunk_id [\<lparr>chunk_id = 0, content = py ''one'', chunk_metadata = []\<rparr>,
                 \<lparr>chunk_id = 1, content = py ''two'', chunk_metadata = []\<rparr>] = [0, 1]"
proof -
  have h: "chunks (process_document (one_file_world (py ''a.pdf'') (py ''.pdf'') []
             [\<lparr>page_content = py ''one'', doc_metadata = []\<rparr>, \<lparr>page_content = py ''two'', doc_metadata = []\<rparr>])
             (py ''a.pdf'') (py ''chunks'')) =
     Some [\<lparr>chunk_id = 0, content = py ''one'', chunk_metadata = []\<rparr>,
           \<lparr>chunk_id = 1, content = py ''two'', chunk_metadata = []\<rparr>]"
    by (simp add: process_document_def process_body_def process_loader_def loader_chunks_def
          one_file_world_simps ascii_lower_literals Let_def)
  show ?thesis using h chunk_ids_contiguous [OF h] by simp
qed

text \<open>
  Claim C10. For a readable \<open>.txt\<close> file processed with export type \<open>chunks\<close>, chunks
  are returned, and the content of each is non-empty and neither begins nor ends with
  whitespace. A buffer of whitespace only gives no chunk, so its discarding takes no id.
\<close>

theorem txt_chunks_are_stripped:
  assumes "path_exists w file_path"
    and "str_lower w (path_suffix w file_path) = py ''.txt''"
    and "read_text w file_path = Inr txt"
    and "getsize w file_path = Inr n"
    and "str_lower w export_type = py ''chunks''"
  shows "\<exists>cs. chunks (process_document w file_path export_type) = Some cs \<and>
           (\<forall>c\<in>set cs. content c \<noteq> [] \<and> \<not> is_space (hd (content c)) \<and> \<not> is_space (last (content c)))"
  using process_document_txt_chunks[OF assms] txt_chunks_stripped by blast

text \<open>
  Claim C2, amended. For a readable \<open>.txt\<close> file processed with export type
  \<open>chunks\<close>, the content of every returned chunk has at most 500 characters, or it is
  the whitespace-stripped form of one source line that is longer than 500 characters.
\<close>

theorem txt_chunk_length_bound:
  assumes "path_exists w file_path"
    and "str_lower w (path_suffix w file_path) = py ''.txt''"
    and "read_text w file_path = Inr txt"
    and "getsize w file_path = Inr n"
    and "str_lower w export_type = py ''chunks''"
  shows "\<exists>cs. chunks (process_document w file_path export_type) = Some cs \<and>
           (\<forall>c\<in>set cs. length (content c) \<le> 500 \<or>
              (\<exists>l\<in>set (split_nl txt). 500 < length l \<and> content c = strip l))"
  using process_document_txt_chunks[OF assms] txt_chunks_bound by blast

text \<open>
  Claim C3, amended. For a readable \<open>.txt\<close> file processed with export type
  \<open>chunks\<close>, the returned chunks are those of the greedy grouping of the lines (a group
  is closed exactly when the next line would make the buffer exceed 500 characters, no
  line is split, the groups in order hold all lines), where each group gives the chunk
  of its whitespace-stripped text, a group of whitespace only gives no chunk, and the
  ids count from 0.
\<close>

theorem chunker_is_stripped_grouping:
  assumes "path_exists w file_path"
    and "str_lower w (path_suffix w file_path) = py ''.txt''"
    and "read_text w file_path = Inr txt"
    and "getsize w file_path = Inr n"
    and "str_lower w export_type = py ''chunks''"
  shows "chunks (process_document w file_path export_type) = Some (stripped_chunks file_path (split_nl txt)) \<and>
         concat (greedy_groups [] (split_nl txt)) = split_nl txt \<and>
         map chunk_id (stripped_chunks file_path (split_nl txt)) =
           [0..<length (stripped_chunks file_path (split_nl txt))]"
  using process_document_txt_chunks[OF assms] txt_chunks_ids[of file_path "txt"]
  by (simp add: txt_chunks_grouping concat_greedy_groups)











lemma small_strips:
  "strip [97, 10, 10] = [97]"
  "strip [97, 10] = [97]"
  "strip [10] = []"
  "strip [32] = []"
  "strip [32, 10] = []"
  "strip [97, 10, 98] = [97, 10, 98]"
  "strip [32, 97, 10, 98, 32] = [97, 10, 98]"
  by (simp_all add: strip_def lstrip_def rstrip_def is_space_def)



text \<open>The theorem at the file \<open>a\<close>, newline, \<open>b\<close>.\<close>

theorem txt_chunk_length_bound_witness:
  "\<exists>cs. chunks (process_document (one_file_world (py ''a.txt'') (py ''.txt'') [97, NL, 98] [])
                  (py ''a.txt'') (py ''chunks'')) = Some cs \<and>
        (\<forall>c\<in>set cs. length (content c) \<le> 500 \<or>
           (\<exists>l\<in>set (split_nl [97, NL, 98]). 500 < length l \<and> content c = strip l))"
  using txt_chunk_length_bound [of "one_file_world (py ''a.txt'') (py ''.txt'') [97, NL, 98] []"
          "py ''a.txt''" "[97, NL, 98]" 3 "py ''chunks''"]
  by (simp add: one_file_world_simps ascii_lower_literals)

text \<open>
  Claim C2 as stated fails on the file of one line made of a space and 501 letters
  \<open>a\<close>: the only chunk has 501 characters, and its content is not that line but the line
  without its leading space.
\<close>

theorem long_padded_line_counterexample:
  "chunks (process_document (one_file_world (py ''a.txt'') (py ''.txt'') (32 # replicate 501 97) [])
             (py ''a.txt'') (py ''chunks'')) =
     Some [\<lparr>chunk_id = 0, content = replicate 501 97,
            chunk_metadata = [(py ''chunk_index'', Num 0), (py ''source'', Str (py ''a.txt''))]\<rparr>] \<and>
   500 < length (replicate 501 (97::nat)) \<and>
   split_nl (32 # replicate 501 97) = [32 # replicate 501 97] \<and>
   replicate 501 97 \<noteq> 32 # replicate 501 (97::nat)"
proof -
  have s: "strip (32 # replicate 501 97) = replicate 501 97"
    by (simp add: strip_cons_space is_space_def strip_clean clean_line_def)
  have nl: "NL \<notin> set (32 # replicate 501 97)" by (simp add: NL_def)
  have "txt_chunks (py ''a.txt'') (32 # replicate 501 97) =
          [\<lparr>chunk_id = 0, content = replicate 501 97,
            chunk_metadata = [(py ''chunk_index'', Num 0), (py ''source'', Str (py ''a.txt''))]\<rparr>]"
    unfolding txt_chunks_one_line[OF nl] s by (simp add: chunk_record_def s)
  moreover have "replicate 501 97 \<noteq> 32 # replicate 501 (97::nat)"
    by (metis length_Cons length_replicate n_not_Suc_n)
  ultimately show ?thesis
    using process_document_txt_chunks [of "one_file_world (py ''a.txt'') (py ''.txt'') (32 # replicate 501 97) []"
            "py ''a.txt''" "32 # replicate 501 97" 502 "py ''chunks''"] split_nl_no_NL[OF nl]
    by (simp add: one_file_world_simps ascii_lower_literals)
qed

text \<open>The theorem at the file space, \<open>a\<close>, newline, \<open>b\<close>, space.\<close>

theorem txt_chunks_are_stripped_witness:
  "\<exists>cs. chunks (process_document (one_file_world (py ''a.txt'') (py ''.txt'') [32, 97, NL, 98, 32] [])
                  (py ''a.txt'') (py ''chunks'')) = Some cs \<and>
        (\<forall>c\<in>set cs. content c \<noteq> [] \<and> \<not> is_space (hd (content c)) \<and> \<not> is_space (last (content c)))"
  using txt_chunks_are_stripped [of "one_file_world (py ''a.txt'') (py ''.txt'') [32, 97, NL, 98, 32] []"
          "py ''a.txt''" "[32, 97, NL, 98, 32]" 5 "py ''chunks''"]
  by (simp add: one_file_world_simps ascii_lower_literals)

text \<open>The theorem at the file space, \<open>a\<close>, newline, \<open>b\<close>, space, with its one chunk.\<close>

theorem chunker_is_stripped_grouping_witness:
  "chunks (process_document (one_file_world (py ''a.txt'') (py ''.txt'') [32, 97, NL, 98, 32] [])
             (py ''a.txt'') (py ''chunks'')) =
     Some (stripped_chunks (py ''a.txt'') (split_nl [32, 97, NL, 98, 32])) \<and>
   stripped_chunks (py ''a.txt'') (split_nl [32, 97, NL, 98, 32]) =
     [\<lparr>chunk_id = 0, content = [97, NL, 98],
       chunk_metadata = [(py ''chunk_index'', Num 0), (py ''source'', Str (py ''a.txt''))]\<rparr>]"
proof -
  have "stripped_chunks (py ''a.txt'') (split_nl [32, 97, NL, 98, 32]) =
     [\<lparr>chunk_id = 0, content = [97, NL, 98],
       chunk_metadata = [(py ''chunk_index'', Num 0), (py ''source'', Str (py ''a.txt''))]\<rparr>]"
    by (simp add: stripped_chunks_def split_nl_def join_nl_def NL_def small_strips number_chunks_def)
  then show ?thesis
    using chunker_is_stripped_grouping [of "one_file_world (py ''a.txt'') (py ''.txt'') [32, 97, NL, 98, 32] []"
          "py ''a.txt''" "[32, 97, NL, 98, 32]" 5 "py ''chunks''"]
    by (simp add: one_file_world_simps ascii_lower_literals)
qed

text \<open>
  Claim C3 as stated fails on the file of one space: after the loop the buffer holds
  the space and a newline, so it is not empty, yet no final chunk is flushed, where the
  reference algorithm in the words of the specification gives one chunk.
\<close>

theorem blank_buffer_counterexample:
  "chunks (process_document (one_file_world (py ''a.txt'') (py ''.txt'') [32] [])
             (py ''a.txt'') (py ''chunks'')) = Some [] \<and>
   spec_chunks (py ''a.txt'') (split_nl [32]) =
     [\<lparr>chunk_id = 0, content = [32],
       chunk_metadata = [(py ''chunk_index'', Num 0), (py ''source'', Str (py ''a.txt''))]\<rparr>] \<and>
   chunk_loop (py ''a.txt'') (split_nl [32]) = ([], [32, NL], 0)"
proof -
  have nl: "NL \<notin> set [32]" by (simp add: NL_def)
  have "txt_chunks (py ''a.txt'') [32] = []"
    unfolding txt_chunks_one_line[OF nl] by (simp add: small_strips)
  moreover have "spec_chunks (py ''a.txt'') (split_nl [32]) =
     [\<lparr>chunk_id = 0, content = [32],
       chunk_metadata = [(py ''chunk_index'', Num 0), (py ''source'', Str (py ''a.txt''))]\<rparr>]"
    by (simp add: spec_chunks_def split_nl_no_NL[OF nl] join_nl_def number_chunks_def)
  moreover have "chunk_loop (py ''a.txt'') (split_nl [32]) = ([], [32, NL], 0)"
    by (simp add: chunk_loop_def split_nl_no_NL[OF nl])
  ultimately show ?thesis
    using process_document_txt_chunks [of "one_file_world (py ''a.txt'') (py ''.txt'') [32] []"
            "py ''a.txt''" "[32]" 1 "py ''chunks''"]
    by (simp add: one_file_world_simps ascii_lower_literals)
qed

section \<open>The temporary file of the upload endpoint\<close>

lemma cleanup_removes: "unlink_refused w p = None \<Longrightarrow> p \<notin> cleanup w p files"
  by (simp add: cleanup_def os_unlink_def)

lemma cleanup_refused: "unlink_refused w p = Some e \<Longrightarrow> cleanup w p files = files"
  by (simp add: cleanup_def os_unlink_def)

lemma endpoint_files:
  assumes "filename file = Some name" and "name \<noteq> []"
    and "str_lower w (path_suffix w name) \<in> set supported_formats"
    and "named_temporary_file w files (str_lower w (path_suffix w name)) = Inr temp_name"
  shows "snd (process_document_endpoint w files file export_type) =
           cleanup w temp_name (insert temp_name files)"
  using assms by (simp add: process_document_endpoint_def Let_def)

text \<open>
  Claim C9, amended. For every call of the upload handler that creates its temporary
  file, whether the processor then returns a result or reading or writing the upload
  fails, the \<open>finally\<close> block calls \<open>os.unlink\<close> on the file, and when the operating
  system does not refuse the call the file is no longer present afterwards.
\<close>

theorem temp_file_removed_when_unlink_succeeds:
  assumes "filename file = Some name" and "name \<noteq> []"
    and "str_lower w (path_suffix w name) \<in> set supported_formats"
    and "named_temporary_file w files (str_lower w (path_suffix w name)) = Inr temp_name"
    and "unlink_refused w temp_name = None"
  shows "temp_name \<notin> snd (process_document_endpoint w files file export_type)"
  using endpoint_files[OF assms(1-4)] cleanup_removes[OF assms(5)] by simp

lemma supported_txt: "ascii_lower (py ''.txt'') \<in> set supported_formats"
  by (simp add: supported_formats_def ascii_lower_literals)

text \<open>The theorem at an upload \<open>notes.txt\<close> stored as \<open>tmp1.txt\<close>.\<close>

theorem temp_file_removed_when_unlink_succeeds_witness:
  "py ''tmp1.txt'' \<notin> snd (process_document_endpoint
      (one_file_world (py ''tmp1.txt'') (py ''.txt'') (py ''hello'') []) {}
      \<lparr>filename = Some (py ''notes.txt''), file_read = Inr (py ''hello'')\<rparr> (py ''markdown''))"
  using temp_file_removed_when_unlink_succeeds [of
          "\<lparr>filename = Some (py ''notes.txt''), file_read = Inr (py ''hello'')\<rparr>" "py ''notes.txt''"
          "one_file_world (py ''tmp1.txt'') (py ''.txt'') (py ''hello'') []" "{}" "py ''tmp1.txt''" "py ''markdown''"]
  by (simp add: one_file_world_simps supported_txt) (simp add: one_file_world_def py_def)

text \<open>
  Claim C9 as stated fails where \<open>os.unlink\<close> raises: the handler swallows the exception
  (\<open>except: pass\<close>), returns the result, and the temporary file is still present.
\<close>

theorem unlink_refused_counterexample:
  "py ''tmp1.txt'' \<in> snd (process_document_endpoint refusing_world {}
      \<lparr>filename = Some (py ''notes.txt''), file_read = Inr (py ''hello'')\<rparr> (py ''markdown'')) \<and>
   fst (process_document_endpoint refusing_world {}
      \<lparr>filename = Some (py ''notes.txt''), file_read = Inr (py ''hello'')\<rparr> (py ''markdown'')) =
     Returned (process_document refusing_world (py ''tmp1.txt'') (py ''markdown''))"
proof -
  have a: "filename \<lparr>filename = Some (py ''notes.txt''), file_read = Inr (py ''hello'')\<rparr> = Some (py ''notes.txt'')"
    by simp
  have b: "py ''notes.txt'' \<noteq> []" by (simp add: py_def)
  have c: "str_lower refusing_world (path_suffix refusing_world (py ''notes.txt'')) = py ''.txt''"
    by (simp add: refusing_world_def one_file_world_def ascii_lower_literals)
  have d: "named_temporary_file refusing_world {} (py ''.txt'') = Inr (py ''tmp1.txt'')"
    by (simp add: refusing_world_def one_file_world_def)
  have e: "unlink_refused refusing_world (py ''tmp1.txt'') = Some (LibraryError (py ''Permission denied''))"
    by (simp add: refusing_world_def)
  have f: "temp_write refusing_world (py ''tmp1.txt'') (py ''hello'') = None"
    by (simp add: refusing_world_def one_file_world_def)
  have sup: "py ''.txt'' \<in> set supported_formats" by (simp add: supported_formats_def)
  show ?thesis
    by (simp add: process_document_endpoint_def Let_def b c d f sup cleanup_refused[OF e])
qed

end
